theory Spec2Isabelle
  imports Complex_Main
begin

section \<open>Python primitives used by the importer\<close>

text \<open>
  The exceptions the modelled code can raise. A raise is the \<open>Inl\<close> branch of a result
  of type \<open>py_error + 'a\<close>. \<open>NonFinite\<close> is no exception: numpy divides by zero with a
  warning and goes on with \<open>inf\<close> or \<open>nan\<close>, values the real numbers of this model do
  not have, so the model stops there and says so.
\<close>

datatype py_error =
    IndexError
  | KeyError
  | ValueError
  | TypeError
  | StopIteration
  | AssertionError
  | NotImplementedError string
  | NonFinite

text \<open>
  \<open>s[-63:]\<close>: the last 63 items of a sequence, the whole sequence when it is shorter.
  Subtraction on \<open>nat\<close> stops at zero, which is the slice's behaviour on a short input.
\<close>

definition name_tail :: "'a list \<Rightarrow> 'a list" where
  "name_tail s = drop (length s - 63) s"

text \<open>
  \<open>xs[i]\<close> for a Python list and a Python integer: a negative index counts from the end,
  an index out of range raises IndexError.
\<close>

definition py_index :: "'a list \<Rightarrow> int \<Rightarrow> py_error + 'a" where
  "py_index xs i =
     (if 0 \<le> i \<and> i < int (length xs) then Inr (xs ! nat i)
      else if i < 0 \<and> - int (length xs) \<le> i then Inr (xs ! nat (int (length xs) + i))
      else Inl IndexError)"

text \<open>
  \<open>a[idx]\<close> for a numpy array and an array of unsigned indices (fancy indexing): a fresh
  array holding \<open>a[i]\<close> for each index in order; an index out of range raises IndexError.
\<close>

fun gather :: "'a list \<Rightarrow> nat list \<Rightarrow> py_error + 'a list" where
  "gather a [] = Inr []"
| "gather a (i # idx) =
     (if i < length a
      then (case gather a idx of Inl e \<Rightarrow> Inl e | Inr r \<Rightarrow> Inr (a ! i # r))
      else Inl IndexError)"

text \<open>
  \<open>s.replace(old, new)\<close> for a non-empty \<open>old\<close> (the code only replaces the literals
  \<open>' '\<close>, \<open>'left_'\<close> and \<open>'right_'\<close>): occurrences are replaced left to right without
  overlap.
\<close>

fun str_replace :: "string \<Rightarrow> string \<Rightarrow> string \<Rightarrow> string" where
  "str_replace old new [] = []"
| "str_replace old new (c # cs) =
     (if old \<noteq> [] \<and> take (length old) (c # cs) = old
      then new @ str_replace old new (drop (length old - 1) cs)
      else c # str_replace old new cs)"

text \<open>\<open>sub in s\<close> for two strings.\<close>

fun str_contains :: "string \<Rightarrow> string \<Rightarrow> bool" where
  "str_contains sub [] = (sub = [])"
| "str_contains sub (c # cs) = (take (length sub) (c # cs) = sub \<or> str_contains sub cs)"

text \<open>\<open>s.split(sep)\<close> for a one-character separator: always at least one piece.\<close>

fun str_split :: "char \<Rightarrow> string \<Rightarrow> string list" where
  "str_split sep [] = [[]]"
| "str_split sep (c # cs) =
     (if c = sep then [] # str_split sep cs
      else (case str_split sep cs of
              [] \<Rightarrow> [[c]]
            | w # ws \<Rightarrow> (c # w) # ws))"

text \<open>\<open>sep.join(parts)\<close> for a list of strings.\<close>

fun str_join :: "string \<Rightarrow> string list \<Rightarrow> string" where
  "str_join sep [] = []"
| "str_join sep [x] = x"
| "str_join sep (x # y # ys) = x @ sep @ str_join sep (y # ys)"


section \<open>The vr\_standard shader: \<open>VRGeneric.create_nodes\<close>\<close>

text \<open>
  The node types the routine asks the host for (members of \<open>Nodes\<close> it names).
\<close>

datatype node_type =
    ShaderNodeOutputMaterial
  | ShaderNodeBsdfPrincipled
  | ShaderNodeTexImage
  | ShaderNodeMixRGB
  | ShaderNodeNormalMap

text \<open>
  A tint is the four-component vector \<open>g_vColorTint\<close> (red, green, blue, alpha). The
  channels are float32 in the source; the model computes with exact reals, so the
  comparisons with \<open>1.0\<close> are the source's and \<open>sum\<close> and the division by 255 are
  without rounding.
\<close>

type_synonym vec4 = "real \<times> real \<times> real \<times> real"

datatype sockval = FloatVal real | ColorVal vec4

text \<open>
  An assignment to an attribute of a node: \<open>node.image = img\<close>,
  \<open>node.blend_type = b\<close>, \<open>node.inputs[k].default_value = v\<close>.
\<close>

datatype node_write =
    SetImage "string option"
  | SetBlendType string
  | SetDefaultValue string sockval

record shader_node =
  bl_idname :: node_type
  node_name :: "string option"

type_synonym socket = "nat \<times> string"

record bpy_material =
  blend_method :: string
  shadow_method :: string

text \<open>
  The shader object's state: the node tree (nodes in creation order, a node's handle is
  its position; links as pairs of an output socket and an input socket; the attribute
  assignments made to nodes, in order, each with the handle of its node) and the host
  material.
\<close>

record shader_state =
  nodes :: "shader_node list"
  links :: "(socket \<times> socket) list"
  writes :: "(nat \<times> node_write) list"
  material :: bpy_material

text \<open>
  The material parameters, as the properties of \<open>VRGeneric\<close> return them
  (\<open>get_vector\<close>, \<open>get_int\<close>, \<open>get_texture\<close> and the texture loaders belong to the
  base classes and the material file; their results are the model's inputs).
\<close>

record vr_params =
  color_texture :: "string option"
  normal_texture :: "string option \<times> string option"
  color :: vec4
  alpha_test :: int
  metalness :: int
  translucent :: int
  specular :: real
  roughness :: real

text \<open>
  Modelled from the spec: \<open>create_node\<close> and \<open>connect_nodes\<close> of the shader base class
  are not among the sources; they issue the node-creation and node-linking calls against
  the host's shading graph. A created node is appended to the tree and its handle
  returned; a link is appended to the tree's links.
\<close>

definition create_node :: "node_type \<Rightarrow> string option \<Rightarrow> shader_state \<Rightarrow> nat \<times> shader_state" where
  "create_node t n s =
     (length (nodes s), s\<lparr>nodes := nodes s @ [\<lparr>bl_idname = t, node_name = n\<rparr>]\<rparr>)"

definition connect_nodes :: "socket \<Rightarrow> socket \<Rightarrow> shader_state \<Rightarrow> shader_state" where
  "connect_nodes out inp s = s\<lparr>links := links s @ [(out, inp)]\<rparr>"

definition set_attr :: "nat \<Rightarrow> node_write \<Rightarrow> shader_state \<Rightarrow> shader_state" where
  "set_attr h w s = s\<lparr>writes := writes s @ [(h, w)]\<rparr>"

definition SHADER :: string where
  "SHADER = ''vr_standard.vfx''"

text \<open>\<open>sum(color)\<close> and \<open>list(np.divide(color, 255))\<close> on a four-component tint.\<close>

definition sum_color :: "vec4 \<Rightarrow> real" where
  "sum_color c = (case c of (r, g, b, a) \<Rightarrow> r + g + b + a)"

definition divide_color :: "vec4 \<Rightarrow> real \<Rightarrow> vec4" where
  "divide_color c d = (case c of (r, g, b, a) \<Rightarrow> (r / d, g / d, b / d, a / d))"

text \<open>
  Line 78, the guard of the tint branch, as the source writes it: the first three
  channels are each compared with \<open>1.0\<close> and the comparisons are joined by \<open>and\<close>.
  The fourth channel is not read.
\<close>

definition tint_guard :: "vec4 \<Rightarrow> bool" where
  "tint_guard c = (case c of (c0, c1, c2, c3) \<Rightarrow> c0 \<noteq> 1 \<and> c1 \<noteq> 1 \<and> c2 \<noteq> 1)"

text \<open>Lines 78--89: the tint branch.\<close>

definition tint_nodes :: "vr_params \<Rightarrow> nat \<Rightarrow> nat \<Rightarrow> shader_state \<Rightarrow> shader_state" where
  "tint_nodes p albedo_node shader s =
     (if tint_guard (color p) then
        (case create_node ShaderNodeMixRGB None s of (color_mix, s1) \<Rightarrow>
           let s2 = set_attr color_mix (SetBlendType ''MULTIPLY'') s1;
               s3 = connect_nodes (albedo_node, ''Color'') (color_mix, ''Color1'') s2;
               col = (if sum_color (color p) > 3 then divide_color (color p) 255 else color p);
               s4 = set_attr color_mix (SetDefaultValue ''Color2'' (ColorVal col)) s3;
               s5 = set_attr color_mix (SetDefaultValue ''Fac'' (FloatVal 1)) s4
           in connect_nodes (color_mix, ''Color'') (shader, ''Base Color'') s5)
      else connect_nodes (albedo_node, ''Color'') (shader, ''Base Color'') s)"

text \<open>
  Lines 91--96: the alpha branch. The flags are Python integers, true when non-zero.
\<close>

definition alpha_nodes :: "vr_params \<Rightarrow> nat \<Rightarrow> nat \<Rightarrow> shader_state \<Rightarrow> shader_state" where
  "alpha_nodes p albedo_node shader s =
     (if translucent p \<noteq> 0 \<or> alpha_test p \<noteq> 0 then
        connect_nodes (albedo_node, ''Alpha'') (shader, ''Alpha'')
          (s\<lparr>material := (material s)\<lparr>blend_method := ''HASHED'', shadow_method := ''HASHED''\<rparr>\<rparr>)
      else if metalness p \<noteq> 0 then
        connect_nodes (albedo_node, ''Alpha'') (shader, ''Metallic'') s
      else s)"

text \<open>
  \<open>VRGeneric.create_nodes\<close>. \<open>base_status\<close> is what the base class's \<open>create_nodes\<close>
  returned; on \<open>'UNKNOWN'\<close> or \<open>'LOADED'\<close> the routine returns at once.
\<close>

definition create_nodes :: "string \<Rightarrow> vr_params \<Rightarrow> shader_state \<Rightarrow> shader_state" where
  "create_nodes base_status p s =
     (if base_status = ''UNKNOWN'' \<or> base_status = ''LOADED'' then s
      else
        (case create_node ShaderNodeOutputMaterial None s of (material_output, s1) \<Rightarrow>
         case create_node ShaderNodeBsdfPrincipled (Some SHADER) s1 of (shader, s2) \<Rightarrow>
         let s3 = connect_nodes (shader, ''BSDF'') (material_output, ''Surface'') s2;
             s4 = set_attr shader (SetDefaultValue ''Roughness'' (FloatVal (roughness p))) s3;
             s5 = set_attr shader (SetDefaultValue ''Specular'' (FloatVal (specular p))) s4
         in
         case create_node ShaderNodeTexImage (Some ''albedo'') s5 of (albedo_node, s6) \<Rightarrow>
         let s7 = set_attr albedo_node (SetImage (color_texture p)) s6;
             s8 = tint_nodes p albedo_node shader s7;
             s9 = alpha_nodes p albedo_node shader s8
         in
         case create_node ShaderNodeTexImage (Some ''normal'') s9 of (normal_map_texture, s10) \<Rightarrow>
         let s11 = set_attr normal_map_texture (SetImage (fst (normal_texture p))) s10 in
         case create_node ShaderNodeNormalMap None s11 of (normalmap_node, s12) \<Rightarrow>
         let s13 = connect_nodes (normal_map_texture, ''Color'') (normalmap_node, ''Color'') s12
         in connect_nodes (normalmap_node, ''Normal'') (shader, ''Normal'') s13))"


text \<open>
  What one call added to the node tree: the nodes, links and attribute assignments that
  were not there before, the sources linked into an input socket, the inputs an output
  socket is linked to, and the values assigned as default of an input of a node.
\<close>

definition new_nodes :: "shader_state \<Rightarrow> shader_state \<Rightarrow> shader_node list" where
  "new_nodes s s' = drop (length (nodes s)) (nodes s')"

definition new_links :: "shader_state \<Rightarrow> shader_state \<Rightarrow> (socket \<times> socket) list" where
  "new_links s s' = drop (length (links s)) (links s')"

definition new_writes :: "shader_state \<Rightarrow> shader_state \<Rightarrow> (nat \<times> node_write) list" where
  "new_writes s s' = drop (length (writes s)) (writes s')"

definition links_into :: "socket \<Rightarrow> (socket \<times> socket) list \<Rightarrow> socket list" where
  "links_into inp ls = map fst (filter (\<lambda>l. snd l = inp) ls)"


definition default_writes :: "nat \<Rightarrow> string \<Rightarrow> (nat \<times> node_write) list \<Rightarrow> sockval list" where
  "default_writes h k ws =
     concat (map (\<lambda>w. case w of
                         (h', SetDefaultValue k' v) \<Rightarrow> if h' = h \<and> k' = k then [v] else []
                       | _ \<Rightarrow> []) ws)"


section \<open>The model importer: names\<close>

text \<open>
  The host limits a name to 63 characters. Lines 174--178 of \<open>import_model\<close> and lines
  464--467 of \<open>import_materials\<close> compute a material's name in the same way; \<open>stem\<close> is
  \<open>Path(mdl.header.name).stem\<close>, computed by the standard library from the header's name.
\<close>

definition material_name :: "bool \<Rightarrow> string \<Rightarrow> string \<Rightarrow> string" where
  "material_name unique_material_names stem mat_name =
     (if unique_material_names then name_tail (stem @ ''_'' @ name_tail mat_name)
      else name_tail mat_name)"

text \<open>
  A bone of the skeleton. Its position and rotation feed the pose matrices, which are the
  host's matrix arithmetic and are not modelled.
\<close>

record bone =
  bone_name :: string
  parent_bone_index :: int






section \<open>The model importer: \<open>create_flex_drivers\<close>\<close>

text \<open>
  The model's flex controllers and its user-interface controllers, as the decoder gives
  them. A controller's name that the source tests for truth is true when not empty.
\<close>

record flex_controller =
  fc_name :: string
  fc_min :: real
  fc_max :: real

record flex_ui_controller =
  ui_name :: string
  nway_controller :: string
  ui_stereo :: bool
  left_controller :: string
  right_controller :: string
  ui_controller :: string

text \<open>
  An item of the mesh data's \<open>flex_controllers\<close> collection (the host property group
  \<open>SourceIO_PG_FlexController\<close>).
\<close>

record pg_controller =
  pg_name :: string
  pg_stereo :: bool
  pg_mode :: int
  pg_value_min :: real
  pg_value_max :: real

text \<open>
  A flex rule as \<open>rebuild_flex_rules\<close> returns it: the flex's name, the text its
  expression formats to, and the expression's inputs, each a name and a fetch-kind tag.
\<close>

type_synonym flex_input = "string \<times> string"
type_synonym flex_rule = "string \<times> string \<times> flex_input list"

text \<open>The two expression classes that \<open>_parse_simple_flex\<close> instantiates.\<close>

datatype flex_expr = Combo "flex_expr list" | FetchController string

text \<open>
  What the routine takes from outside the sources: the compiled rules
  (\<open>mdl.rebuild_flex_rules()\<close>), the names bound in the module's \<open>globals()\<close>, the
  literal text that opens the generated script (lines 299--352), the property group's
  \<open>set_from_controller\<close> and the item that \<open>flex_controllers.add()\<close> appends, and whether
  a \<open>Combo\<close> object is true in a condition (a Python object is, unless its class says
  otherwise).
\<close>

record driver_env =
  all_exprs :: "flex_rule list"
  module_globals :: "string list"
  script_prelude :: string
  set_from_controller :: "flex_controller \<Rightarrow> pg_controller \<Rightarrow> pg_controller"
  blank_controller :: pg_controller
  combo_truthy :: bool
  mdl_flex_controllers :: "flex_controller list"
  mdl_flex_ui_controllers :: "flex_ui_controller list"
  mdl_header_name :: string

definition newline :: string where
  "newline = [CHR 0x0A]"

definition dquote :: string where
  "dquote = [CHR 0x22]"

text \<open>\<open>st = '\n    '\<close>, line 269.\<close>

definition st :: string where
  "st = newline @ ''    ''"

text \<open>\<open>next(filter(lambda a: a.name == name, mdl.flex_controllers))\<close>.\<close>

definition find_controller :: "string \<Rightarrow> flex_controller list \<Rightarrow> py_error + flex_controller" where
  "find_controller name cs =
     (case find (\<lambda>a. fc_name a = name) cs of None \<Rightarrow> Inl StopIteration | Some c \<Rightarrow> Inr c)"

text \<open>
  Lines 271--298, one user-interface controller: \<open>cont\<close> is appended first, the n-way
  controller after it.
\<close>

definition add_ui_controller ::
  "driver_env \<Rightarrow> flex_ui_controller \<Rightarrow> pg_controller list \<Rightarrow> py_error + pg_controller list" where
  "add_ui_controller env ui ctrls =
     (let cont = length ctrls;
          ctrls1 = ctrls @ [blank_controller env];
          nway =
            (if nway_controller ui \<noteq> [] then
               (case find_controller (nway_controller ui) (mdl_flex_controllers env) of
                  Inl e \<Rightarrow> Inl e
                | Inr multi_controller \<Rightarrow>
                    Inr (ctrls1 @
                      [set_from_controller env multi_controller
                         ((blank_controller env)\<lparr>pg_stereo := False, pg_name := nway_controller ui\<rparr>)]))
             else Inr ctrls1)
      in case nway of
           Inl e \<Rightarrow> Inl e
         | Inr ctrls2 \<Rightarrow>
             if ui_stereo ui then
               (case find_controller (left_controller ui) (mdl_flex_controllers env) of
                  Inl e \<Rightarrow> Inl e
                | Inr left \<Rightarrow>
                    (case find_controller (right_controller ui) (mdl_flex_controllers env) of
                       Inl e \<Rightarrow> Inl e
                     | Inr right \<Rightarrow>
                         if fc_max left \<noteq> fc_max right \<or> fc_min left \<noteq> fc_min right
                         then Inl AssertionError
                         else Inr (ctrls2[cont := set_from_controller env left
                                 ((ctrls2 ! cont)\<lparr>pg_stereo := True, pg_name := ui_name ui\<rparr>)])))
             else
               (case find_controller (ui_controller ui) (mdl_flex_controllers env) of
                  Inl e \<Rightarrow> Inl e
                | Inr controller \<Rightarrow>
                    Inr (ctrls2[cont := set_from_controller env controller
                            ((ctrls2 ! cont)\<lparr>pg_stereo := False, pg_name := ui_name ui\<rparr>)])))"

fun add_ui_controllers ::
  "driver_env \<Rightarrow> flex_ui_controller list \<Rightarrow> pg_controller list \<Rightarrow> py_error + pg_controller list" where
  "add_ui_controllers env [] ctrls = Inr ctrls"
| "add_ui_controllers env (ui # uis) ctrls =
     (case add_ui_controller env ui ctrls of
        Inl e \<Rightarrow> Inl e
      | Inr ctrls' \<Rightarrow> add_ui_controllers env uis ctrls')"

text \<open>
  Lines 359--375: the definition emitted for one input of a rule. The tags of line 361
  fetch a controller's value (a stereo half when the input's name says so), \<open>fetch2\<close>
  fetches a shape key's value, and any other tag raises.
\<close>

definition controller_tags :: "string list" where
  "controller_tags = [''fetch1'', ''2WAY1'', ''2WAY0'', ''NWAY'', ''DUE'']"

definition input_definition :: "flex_input \<Rightarrow> py_error + string" where
  "input_definition inp =
     (case inp of (input_name, tag) \<Rightarrow>
        if tag \<in> set controller_tags then
          (if str_contains ''left_'' input_name then
             Inr (str_replace '' '' ''_'' input_name @ '' = obj_data.flex_controllers['' @ dquote @
                  str_replace ''left_'' [] input_name @ dquote @ ''].value_left'')
           else if str_contains ''right_'' input_name then
             Inr (str_replace '' '' ''_'' input_name @ '' = obj_data.flex_controllers['' @ dquote @
                  str_replace ''right_'' [] input_name @ dquote @ ''].value_right'')
           else
             Inr (str_replace '' '' ''_'' input_name @ '' = obj_data.flex_controllers['' @ dquote @
                  input_name @ dquote @ ''].value''))
        else if tag = ''fetch2'' then
          Inr (str_replace '' '' ''_'' input_name @ '' = obj_data.shape_keys.key_blocks['' @ dquote @
               input_name @ dquote @ ''].value'')
        else Inl (NotImplementedError (dquote @ tag @ dquote @ '' is not supported'')))"

fun input_definitions :: "flex_input list \<Rightarrow> py_error + string list" where
  "input_definitions [] = Inr []"
| "input_definitions (inp # inputs) =
     (case input_definition inp of
        Inl e \<Rightarrow> Inl e
      | Inr d \<Rightarrow> (case input_definitions inputs of Inl e \<Rightarrow> Inl e | Inr ds \<Rightarrow> Inr (d # ds)))"

text \<open>Lines 377--383: the function emitted for one rule.\<close>

definition template_function :: "string \<Rightarrow> string list \<Rightarrow> string \<Rightarrow> string" where
  "template_function driver_name input_defs expr =
     newline @ ''def '' @ driver_name @ ''(obj_data):'' @ newline @
     ''    '' @ str_join st input_defs @ newline @
     ''    return '' @ expr @ newline @
     ''bpy.app.driver_namespace['' @ dquote @ driver_name @ dquote @ ''] = '' @ driver_name @ newline @
     newline"

text \<open>
  Lines 353--384: the loop over the compiled rules. A rule whose driver name is bound
  in \<open>globals()\<close> is passed over. The \<open>print\<close> of line 376 writes to the console only.
\<close>

definition driver_name_of :: "string \<Rightarrow> string" where
  "driver_name_of flex_name = str_replace '' '' ''_'' (flex_name @ ''_driver'')"

fun rule_definitions :: "string list \<Rightarrow> flex_rule list \<Rightarrow> string \<Rightarrow> py_error + string" where
  "rule_definitions globs [] blender_py_file = Inr blender_py_file"
| "rule_definitions globs ((flex_name, expr, inputs) # rules) blender_py_file =
     (let driver_name = driver_name_of flex_name in
      if driver_name \<in> set globs then rule_definitions globs rules blender_py_file
      else
        (case input_definitions inputs of
           Inl e \<Rightarrow> Inl e
         | Inr input_defs \<Rightarrow>
             rule_definitions globs rules
               (blender_py_file @ template_function driver_name input_defs expr)))"

text \<open>
  The fetch kinds that lines 361 and 371 accept, and the rules that the loop does not
  pass over.
\<close>

definition supported_tag :: "string \<Rightarrow> bool" where
  "supported_tag tag = (tag \<in> set controller_tags \<or> tag = ''fetch2'')"

definition visited_rules :: "string list \<Rightarrow> flex_rule list \<Rightarrow> flex_rule list" where
  "visited_rules globs rules = filter (\<lambda>r. driver_name_of (fst r) \<notin> set globs) rules"

definition unsupported_inputs :: "flex_rule list \<Rightarrow> flex_input list" where
  "unsupported_inputs rules =
     filter (\<lambda>inp. \<not> supported_tag (snd inp)) (concat (map (\<lambda>r. snd (snd r)) rules))"

text \<open>
  The state of the pass over the shape keys: the mesh data's controllers, the warnings
  issued, the script text so far, and the drivers attached (shape key and expression).
\<close>

record driver_state =
  controllers :: "pg_controller list"
  warnings :: "string list"
  blender_py_file :: string
  drivers :: "(string \<times> string) list"

text \<open>
  \<open>_parse_simple_flex\<close>, lines 263--267: the name is split at underscores; unless every
  piece names a controller of the mesh data the result is \<open>None\<close>.
\<close>

definition parse_simple_flex ::
  "pg_controller list \<Rightarrow> string \<Rightarrow> (flex_expr \<times> flex_input list) option" where
  "parse_simple_flex ctrls missing_flex_name =
     (let flexes = str_split (CHR ''_'') missing_flex_name in
      if \<not> list_all (\<lambda>flex. flex \<in> set (map pg_name ctrls)) flexes then None
      else Some (Combo (map FetchController flexes), map (\<lambda>flex. (flex, ''fetch2'')) flexes))"

text \<open>Lines 402--407: the identity driver of the last resort.\<close>

definition identity_function :: "string \<Rightarrow> string" where
  "identity_function flex_name =
     (let fn = str_replace '' '' ''_'' flex_name @ ''_driver'' in
      newline @ ''def '' @ fn @ ''(obj_data):'' @ newline @
      ''    return obj_data.flex_controllers['' @ dquote @ flex_name @ dquote @ ''].value'' @ newline @
      ''bpy.app.driver_namespace['' @ dquote @ fn @ dquote @ ''] = '' @ fn @ newline @
      newline @ replicate 32 (CHR '' ''))"

text \<open>
  Lines 392--417: a shape key without a compiled rule. In the branch of lines 409--417
  the template joins \<open>inputs\<close> with \<open>st.join\<close>; the items of \<open>inputs\<close> are the pairs that
  \<open>_parse_simple_flex\<close> built, not strings, and \<open>str.join\<close> raises TypeError on them.
\<close>

definition missing_rule :: "driver_env \<Rightarrow> string \<Rightarrow> driver_state \<Rightarrow> py_error + driver_state" where
  "missing_rule env flex_name s =
     (let s1 = s\<lparr>warnings := warnings s @
                  [''Rule for '' @ flex_name @ '' not found! Generating basic rule.'']\<rparr>;
          parsed = parse_simple_flex (controllers s1) flex_name;
          falls_back =
            (case parsed of
               None \<Rightarrow> True
             | Some (expr, inputs) \<Rightarrow> \<not> combo_truthy env \<or> inputs = [])
      in if falls_back then
           Inr (s1\<lparr>warnings := warnings s1 @ [''Failed to generate basic rule for '' @ flex_name @ ''!''],
                  controllers := controllers s1 @
                    [(blank_controller env)\<lparr>pg_name := flex_name, pg_mode := 1,
                                            pg_value_min := 0, pg_value_max := 1\<rparr>],
                  blender_py_file := blender_py_file s1 @ identity_function flex_name\<rparr>)
         else Inl TypeError)"

text \<open>Lines 386--430: one shape key; \<open>base\<close> is passed over.\<close>

definition shape_key_driver :: "driver_env \<Rightarrow> string \<Rightarrow> driver_state \<Rightarrow> py_error + driver_state" where
  "shape_key_driver env flex_name s =
     (if flex_name = ''base'' then Inr s
      else
        (case (if flex_name \<notin> set (map fst (all_exprs env)) then missing_rule env flex_name s
               else Inr s) of
           Inl e \<Rightarrow> Inl e
         | Inr s' \<Rightarrow>
             Inr (s'\<lparr>drivers := drivers s' @
                    [(flex_name, str_replace '' '' ''_'' flex_name @ ''_driver(obj_data)'')]\<rparr>)))"

fun shape_key_drivers :: "driver_env \<Rightarrow> string list \<Rightarrow> driver_state \<Rightarrow> py_error + driver_state" where
  "shape_key_drivers env [] s = Inr s"
| "shape_key_drivers env (k # ks) s =
     (case shape_key_driver env k s of Inl e \<Rightarrow> Inl e | Inr s' \<Rightarrow> shape_key_drivers env ks s')"

text \<open>
  \<open>create_flex_drivers\<close>, lines 255--434. \<open>key_blocks\<close> is \<open>None\<close> when the mesh data has
  no shape keys (the routine returns at once), else the names of the shape keys in order;
  \<open>ctrls\<close> are the controllers the mesh data has on entry. The result is the final state
  and the name of the text block the script is written to.
\<close>

definition create_flex_drivers ::
  "driver_env \<Rightarrow> string list option \<Rightarrow> pg_controller list \<Rightarrow> py_error + (driver_state \<times> string) option" where
  "create_flex_drivers env key_blocks ctrls =
     (case key_blocks of
        None \<Rightarrow> Inr None
      | Some names \<Rightarrow>
          (case add_ui_controllers env (mdl_flex_ui_controllers env) ctrls of
             Inl e \<Rightarrow> Inl e
           | Inr ctrls' \<Rightarrow>
               (case rule_definitions (module_globals env) (all_exprs env) (script_prelude env) of
                  Inl e \<Rightarrow> Inl e
                | Inr file \<Rightarrow>
                    (case shape_key_drivers env names
                            \<lparr>controllers = ctrls', warnings = [], blender_py_file = file, drivers = []\<rparr> of
                       Inl e \<Rightarrow> Inl e
                     | Inr s \<Rightarrow> Inr (Some (s, mdl_header_name env @ ''.py''))))))"


section \<open>The model importer: \<open>import_model\<close>\<close>

type_synonym vec3 = "real \<times> real \<times> real"
type_synonym vec2 = "real \<times> real"

text \<open>
  A vertex of the vertex buffer (the fields of the structured array), a flex of a mesh,
  and the import's options. Coordinates are float32 in the source and exact reals here.
\<close>

record vertex =
  v_vertex :: vec3
  v_normal :: vec3
  v_uv :: vec2
  v_bone_id :: "nat list"
  v_weight :: "real list"

record flex_desc =
  flex_desc_index :: int
  partner_index :: int

record import_options =
  opt_scale :: real
  opt_create_drivers :: bool
  opt_re_use_meshes :: bool
  opt_unique_material_names :: bool

text \<open>
  A vertex group of a mesh object: the name it was created under and the weight of each
  vertex assigned to it. A shape key: its name and the coordinates written to it
  (\<open>None\<close> while the importer has written none).
\<close>

type_synonym vertex_group = "string \<times> (nat \<rightharpoonup> real)"
type_synonym shape_key = "string \<times> real list option"

text \<open>
  A mesh object the importer hands to the host. The custom properties it sets
  (\<open>skin_groups\<close>, \<open>active_skin\<close>, \<open>model_type\<close>, \<open>prop_path\<close>) and the geometry
  given to \<open>from_pydata\<close> are left out.
\<close>

record mesh_object =
  obj_name :: string
  mesh_data_name :: string
  used_copy :: bool
  armature_parent :: bool
  material_slots :: "string list"
  uv_layers :: "(string option \<times> real list) list"
  vertex_groups :: "vertex_group list"
  shape_keys :: "shape_key list"
  flex_drivers :: "(driver_state \<times> string) option"

text \<open>
  What the loop body reads for one sub-model, a pair of \<open>zip(vtx_body_part.models,
  body_part.models)\<close>. \<open>get_slice\<close> and \<open>merge_meshes\<close> are not among the sources, nor is
  the vertex animation cache; their results are inputs: \<open>m_model_vertices\<close> is
  \<open>get_slice(all_vertices, model.vertex_offset, model.vertex_count)\<close>, \<open>m_vtx_vertices\<close>
  and \<open>m_material_indices\<close> are the first and third results of \<open>merge_meshes\<close>,
  \<open>m_extra_data\<close> holds for each item of \<open>vvd.extra_data\<close> its name and the slice of
  its rows of two, \<open>m_vertex_cache\<close> the slice of \<open>vac.vertex_cache[flex_name]\<close>.
  \<open>m_loop_vertex_index\<close> is the host's vertex index of every loop of the new mesh, and
  \<open>m_original\<close> the object found for re-use when both host lookups of lines 122--123
  succeed. \<open>m_flexes\<close> are the flexes of the model's meshes, in order.
\<close>

record model_in =
  m_body_part_name :: string
  m_name :: string
  m_vertex_count :: nat
  m_model_vertices :: "vertex list"
  m_vtx_vertices :: "nat list"
  m_material_indices :: "nat list"
  m_loop_vertex_index :: "nat list"
  m_extra_data :: "(string \<times> vec2 list) list"
  m_flexes :: "flex_desc list"
  m_vertex_cache :: "string \<rightharpoonup> vec3 list"
  m_original :: "mesh_object option"

text \<open>The decoded model, as far as the importer reads it.\<close>

record mdl_in =
  hdr_name :: string
  hdr_flags :: int
  mdl_bones :: "bone list"
  mdl_materials :: "string list"
  mdl_flex_names :: "string list"
  mdl_attachments :: "(string \<times> int) list"


subsection \<open>UV layers, lines 186--198\<close>

text \<open>
  \<open>uvs[:, 1] = 1 - uvs[:, 1]\<close> on the rows of a fresh array, and the flat array given to
  \<open>foreach_set('uv', ...)\<close>: the rows of \<open>uvs[vertex_indices]\<close>, one after the other.
\<close>

definition flip_v :: "vec2 list \<Rightarrow> vec2 list" where
  "flip_v uvs = map (\<lambda>(u, v). (u, 1 - v)) uvs"

definition flatten2 :: "vec2 list \<Rightarrow> real list" where
  "flatten2 rows = concat (map (\<lambda>(u, v). [u, v]) rows)"

definition uv_layer_data :: "vec2 list \<Rightarrow> nat list \<Rightarrow> py_error + real list" where
  "uv_layer_data uvs vertex_indices =
     (case gather (flip_v uvs) vertex_indices of
        Inl e \<Rightarrow> Inl e
      | Inr rows \<Rightarrow> Inr (flatten2 rows))"

fun extra_uv_layers ::
  "(string \<times> vec2 list) list \<Rightarrow> nat list \<Rightarrow> nat list \<Rightarrow> py_error + (string option \<times> real list) list" where
  "extra_uv_layers [] vtx_vs vertex_indices = Inr []"
| "extra_uv_layers ((extra_name, extra_slice) # rest) vtx_vs vertex_indices =
     (case gather extra_slice vtx_vs of
        Inl e \<Rightarrow> Inl e
      | Inr extra_uv \<Rightarrow>
          (case uv_layer_data extra_uv vertex_indices of
             Inl e \<Rightarrow> Inl e
           | Inr flat \<Rightarrow>
               (case extra_uv_layers rest vtx_vs vertex_indices of
                  Inl e \<Rightarrow> Inl e
                | Inr layers \<Rightarrow> Inr ((Some extra_name, flat) # layers))))"

subsection \<open>Vertex groups, lines 200--207\<close>

text \<open>
  The dictionary \<open>weight_groups\<close>: one vertex group is created per bone, in order, and
  stored under the bone's name, a later bone of the same name replacing an earlier one.
  A group is known by its position among the object's vertex groups.
\<close>

definition weight_groups :: "bone list \<Rightarrow> (string \<rightharpoonup> nat)" where
  "weight_groups bones =
     fold (\<lambda>(i, b) d. d(bone_name b \<mapsto> i)) (enumerate 0 bones) Map.empty"

definition new_vertex_groups :: "bone list \<Rightarrow> vertex_group list" where
  "new_vertex_groups bones = map (\<lambda>b. (bone_name b, Map.empty)) bones"

text \<open>
  The inner loop over the influences of vertex \<open>n\<close>: an influence of positive weight
  is added to the group stored under the name of its bone.
\<close>

fun add_influences ::
  "bone list \<Rightarrow> (string \<rightharpoonup> nat) \<Rightarrow> nat \<Rightarrow> (nat \<times> real) list \<Rightarrow> vertex_group list \<Rightarrow>
   py_error + vertex_group list" where
  "add_influences bones wg n [] groups = Inr groups"
| "add_influences bones wg n ((bone_index, weight) # rest) groups =
     (if weight > 0 then
        (if bone_index < length bones then
           (case wg (bone_name (bones ! bone_index)) of
              None \<Rightarrow> Inl KeyError
            | Some g \<Rightarrow>
                add_influences bones wg n rest
                  (groups[g := (fst (groups ! g), (snd (groups ! g))(n \<mapsto> weight))]))
         else Inl IndexError)
      else add_influences bones wg n rest groups)"

fun assign_weights ::
  "bone list \<Rightarrow> (string \<rightharpoonup> nat) \<Rightarrow> nat \<Rightarrow> vertex list \<Rightarrow> vertex_group list \<Rightarrow>
   py_error + vertex_group list" where
  "assign_weights bones wg n [] groups = Inr groups"
| "assign_weights bones wg n (v # vs) groups =
     (case add_influences bones wg n (zip (v_bone_id v) (v_weight v)) groups of
        Inl e \<Rightarrow> Inl e
      | Inr groups' \<Rightarrow> assign_weights bones wg (Suc n) vs groups')"

definition create_vertex_groups :: "bone list \<Rightarrow> vertex list \<Rightarrow> py_error + vertex_group list" where
  "create_vertex_groups bones vertices =
     assign_weights bones (weight_groups bones) 0 vertices (new_vertex_groups bones)"

subsection \<open>Materials, lines 172--179\<close>

text \<open>
  \<open>material_indices_array.max()\<close> raises ValueError on an empty array; then every
  distinct material index, in ascending order, is looked up and named.
\<close>

fun material_names :: "bool \<Rightarrow> string \<Rightarrow> string list \<Rightarrow> nat list \<Rightarrow> py_error + string list" where
  "material_names unique stem materials [] = Inr []"
| "material_names unique stem materials (mat_id # ids) =
     (if mat_id < length materials then
        (case material_names unique stem materials ids of
           Inl e \<Rightarrow> Inl e
         | Inr names \<Rightarrow> Inr (material_name unique stem (materials ! mat_id) # names))
      else Inl IndexError)"

definition model_materials :: "bool \<Rightarrow> string \<Rightarrow> string list \<Rightarrow> nat list \<Rightarrow> py_error + string list" where
  "model_materials unique stem materials material_indices =
     (if material_indices = [] then Inl ValueError
      else material_names unique stem materials (sorted_list_of_set (set material_indices)))"

subsection \<open>Shape keys, lines 209--247\<close>

definition scale3 :: "real \<Rightarrow> vec3 \<Rightarrow> vec3" where
  "scale3 k v = (case v of (x, y, z) \<Rightarrow> (x * k, y * k, z * k))"

text \<open>All the numbers of an array of rows of three, as \<open>reshape(-1)\<close> lists them.\<close>

definition flatten3 :: "vec3 list \<Rightarrow> real list" where
  "flatten3 rows = concat (map (\<lambda>(x, y, z). [x, y, z]) rows)"

text \<open>
  Line 232. \<open>model_vertices.max()\<close> and \<open>.min()\<close> range over every coordinate of every
  vertex of the array, on all three axes; on an empty array they raise ValueError.
\<close>

definition balance_width :: "vec3 list \<Rightarrow> py_error + real" where
  "balance_width model_verts =
     (if model_verts = [] then Inl ValueError
      else Inr ((Max (set (flatten3 model_verts)) - Min (set (flatten3 model_verts))) *
                (1 - (99.3 / 100))))"

text \<open>
  Lines 231--233: \<open>balance = np.clip((-balance / balance_width / 2) + 0.5, 0, 1)\<close>, with
  \<open>balance\<close> first the column of X coordinates. A width of zero makes numpy divide by
  zero.
\<close>

definition clip01 :: "real \<Rightarrow> real" where
  "clip01 x = min (max x 0) 1"

definition flex_balance :: "vec3 list \<Rightarrow> py_error + real list" where
  "flex_balance model_verts =
     (case balance_width model_verts of
        Inl e \<Rightarrow> Inl e
      | Inr w \<Rightarrow>
          if w = 0 then Inl NonFinite
          else Inr (map (\<lambda>(x, y, z). clip01 ((- x / w / 2) + 0.5)) model_verts))"

text \<open>
  \<open>(flex_delta * balance[:, None]) + model_vertices\<close>: row by row, the delta times the
  row's weight, plus the vertex. The three arrays have one row per entry of
  \<open>vtx_vertices\<close>.
\<close>

definition blend :: "vec3 list \<Rightarrow> real list \<Rightarrow> vec3 list \<Rightarrow> vec3 list" where
  "blend flex_delta weights model_verts =
     map (\<lambda>((dx, dy, dz), w, (x, y, z)). (dx * w + x, dy * w + y, dz * w + z))
       (zip flex_delta (zip weights model_verts))"

text \<open>\<open>flex_delta + model_vertices\<close>, line 245.\<close>

definition add3 :: "vec3 list \<Rightarrow> vec3 list \<Rightarrow> vec3 list" where
  "add3 flex_delta model_verts =
     map (\<lambda>((dx, dy, dz), (x, y, z)). (dx + x, dy + y, dz + z)) (zip flex_delta model_verts)"

text \<open>
  Lines 231--240: the weights of a flex with a partner and the coordinates written to the
  two shape keys, as (balance, p\_balance, flex\_vertices, p\_flex\_vertices).
\<close>

definition partner_blend ::
  "vec3 list \<Rightarrow> vec3 list \<Rightarrow> py_error + (real list \<times> real list \<times> vec3 list \<times> vec3 list)" where
  "partner_blend flex_delta model_verts =
     (case flex_balance model_verts of
        Inl e \<Rightarrow> Inl e
      | Inr balance \<Rightarrow>
          (let p_balance = map (\<lambda>b. 1 - b) balance
           in Inr (balance, p_balance,
                   blend flex_delta balance model_verts,
                   blend flex_delta p_balance model_verts)))"

text \<open>
  \<open>key_blocks.get(name, None) or shape_key_add(name=name)\<close>, and
  \<open>shape_key.data.foreach_set("co", ...)\<close> on the key of that name.
\<close>

definition key_get_or_add :: "string \<Rightarrow> shape_key list \<Rightarrow> shape_key list" where
  "key_get_or_add name keys = (if name \<in> set (map fst keys) then keys else keys @ [(name, None)])"

definition key_set_co :: "string \<Rightarrow> real list \<Rightarrow> shape_key list \<Rightarrow> shape_key list" where
  "key_set_co name co keys = map (\<lambda>(k, c). if k = name then (k, Some co) else (k, c)) keys"

text \<open>Line 213: the flexes of the model's meshes with their names.\<close>

fun named_flexes :: "string list \<Rightarrow> flex_desc list \<Rightarrow> py_error + (string \<times> flex_desc) list" where
  "named_flexes flex_names [] = Inr []"
| "named_flexes flex_names (f # fs) =
     (case py_index flex_names (flex_desc_index f) of
        Inl e \<Rightarrow> Inl e
      | Inr flex_name \<Rightarrow>
          (case named_flexes flex_names fs of
             Inl e \<Rightarrow> Inl e
           | Inr rest \<Rightarrow> Inr ((flex_name, f) # rest)))"

text \<open>
  Lines 217--245, one flex. A partner index is a Python integer and counts as declared
  when it is not zero.
\<close>

definition apply_flex ::
  "import_options \<Rightarrow> string list \<Rightarrow> model_in \<Rightarrow> string \<times> flex_desc \<Rightarrow> shape_key list \<Rightarrow>
   py_error + shape_key list" where
  "apply_flex opts flex_names m nf keys =
     (case m_vertex_cache m (fst nf) of
        None \<Rightarrow> Inl KeyError
      | Some vertex_animation \<Rightarrow>
         (case gather vertex_animation (m_vtx_vertices m) of
            Inl e \<Rightarrow> Inl e
          | Inr delta_rows \<Rightarrow>
             (case gather (map v_vertex (m_model_vertices m)) (m_vtx_vertices m) of
                Inl e \<Rightarrow> Inl e
              | Inr vertex_rows \<Rightarrow>
                 (let flex_name = fst nf;
                      flex_delta = map (scale3 (opt_scale opts)) delta_rows;
                      model_verts = map (scale3 (opt_scale opts)) vertex_rows
                  in if opt_create_drivers opts \<and> partner_index (snd nf) \<noteq> 0 then
                       (case py_index flex_names (partner_index (snd nf)) of
                          Inl e \<Rightarrow> Inl e
                        | Inr partner_name \<Rightarrow>
                           (case partner_blend flex_delta model_verts of
                              Inl e \<Rightarrow> Inl e
                            | Inr r \<Rightarrow>
                               Inr (key_set_co partner_name (flatten3 (snd (snd (snd r))))
                                      (key_set_co flex_name (flatten3 (fst (snd (snd r))))
                                         (key_get_or_add flex_name
                                            (key_get_or_add partner_name keys))))))
                     else
                       Inr (key_set_co flex_name (flatten3 (add3 flex_delta model_verts))
                              (key_get_or_add flex_name keys))))))"

fun apply_flexes ::
  "import_options \<Rightarrow> string list \<Rightarrow> model_in \<Rightarrow> (string \<times> flex_desc) list \<Rightarrow> shape_key list \<Rightarrow>
   py_error + shape_key list" where
  "apply_flexes opts flex_names m [] keys = Inr keys"
| "apply_flexes opts flex_names m (nf # nfs) keys =
     (case apply_flex opts flex_names m nf keys of
        Inl e \<Rightarrow> Inl e
      | Inr keys' \<Rightarrow> apply_flexes opts flex_names m nfs keys')"

text \<open>
  Lines 209--247 for one mesh object that is not a static prop: the shape keys and,
  when drivers are asked for, the result of \<open>create_flex_drivers\<close> on the new mesh data
  (which has no controllers yet).
\<close>

definition model_shape_keys ::
  "driver_env \<Rightarrow> import_options \<Rightarrow> string list \<Rightarrow> model_in \<Rightarrow>
   py_error + (shape_key list \<times> (driver_state \<times> string) option)" where
  "model_shape_keys env opts flex_names m =
     (case named_flexes flex_names (m_flexes m) of
        Inl e \<Rightarrow> Inl e
      | Inr flexes \<Rightarrow>
          if flexes = [] then Inr ([], None)
          else
            (case apply_flexes opts flex_names m flexes [(''base'', None)] of
               Inl e \<Rightarrow> Inl e
             | Inr keys \<Rightarrow>
                 if opt_create_drivers opts then
                   (case create_flex_drivers env (Some (map fst keys)) [] of
                      Inl e \<Rightarrow> Inl e
                    | Inr dr \<Rightarrow> Inr (keys, dr))
                 else Inr (keys, None)))"

subsection \<open>The loop body and \<open>import_model\<close>\<close>

text \<open>
  Lines 133--247 for a sub-model that is built anew: names, materials, UV layers, then,
  unless the model is a static prop, vertex groups and shape keys.
\<close>

definition build_mesh ::
  "driver_env \<Rightarrow> import_options \<Rightarrow> mdl_in \<Rightarrow> string \<Rightarrow> bool \<Rightarrow> model_in \<Rightarrow> py_error + mesh_object" where
  "build_mesh env opts mdl stem is_static m =
     (case gather (m_model_vertices m) (m_vtx_vertices m) of
        Inl e \<Rightarrow> Inl e
      | Inr vertices \<Rightarrow>
         (case model_materials (opt_unique_material_names opts) stem (mdl_materials mdl)
                 (m_material_indices m) of
            Inl e \<Rightarrow> Inl e
          | Inr slots \<Rightarrow>
             (case uv_layer_data (map v_uv vertices) (m_loop_vertex_index m) of
                Inl e \<Rightarrow> Inl e
              | Inr uv_flat \<Rightarrow>
                 (case extra_uv_layers (m_extra_data m) (m_vtx_vertices m) (m_loop_vertex_index m) of
                    Inl e \<Rightarrow> Inl e
                  | Inr extra_layers \<Rightarrow>
                     (case (if is_static then Inr [] else create_vertex_groups (mdl_bones mdl) vertices) of
                        Inl e \<Rightarrow> Inl e
                      | Inr groups \<Rightarrow>
                         (case (if is_static then Inr ([], None)
                                else model_shape_keys env opts (mdl_flex_names mdl) m) of
                            Inl e \<Rightarrow> Inl e
                          | Inr ks \<Rightarrow>
                             Inr \<lparr>obj_name = m_body_part_name m @ ''_'' @ m_name m,
                                  mesh_data_name = m_body_part_name m @ ''_'' @ m_name m @ ''_MESH'',
                                  used_copy = False,
                                  armature_parent = (\<not> is_static),
                                  material_slots = slots,
                                  uv_layers = (None, uv_flat) # extra_layers,
                                  vertex_groups = groups,
                                  shape_keys = fst ks,
                                  flex_drivers = snd ks\<rparr>))))))"








section \<open>The model importer: \<open>import_materials\<close>\<close>

text \<open>
  The host's materials by name (\<open>bpy.data.materials\<close>), each with its custom property
  \<open>source1_loaded\<close>; the lines logged at level info; and the class-wide switch set by
  \<open>Source1ShaderBase.use_bvlg\<close>.
\<close>

record host_material =
  source1_loaded :: bool

record material_host =
  bpy_materials :: "string \<rightharpoonup> host_material"
  info_log :: "string list"
  bvlg :: bool

text \<open>
  Outside the sources: the content manager's \<open>find_material\<close>, given a material path
  and a material's name, and the material loader, given the path found and the
  material's host name.
\<close>

record material_env =
  find_material :: "string \<Rightarrow> string \<Rightarrow> string option"
  create_material :: "string \<Rightarrow> string \<Rightarrow> material_host \<Rightarrow> material_host"

text \<open>Lines 477--481: the first material path under which the material is found.\<close>

fun first_material_path :: "material_env \<Rightarrow> string list \<Rightarrow> string \<Rightarrow> string option" where
  "first_material_path menv [] name = None"
| "first_material_path menv (mat_path # rest) name =
     (case find_material menv mat_path name of
        Some found \<Rightarrow> Some found
      | None \<Rightarrow> first_material_path menv rest name)"

text \<open>
  Lines 473--475: the material exists in the host and its \<open>source1_loaded\<close> is true;
  and the line logged for it.
\<close>

definition is_loaded :: "material_host \<Rightarrow> string \<Rightarrow> bool" where
  "is_loaded h mat_name =
     (case bpy_materials h mat_name of None \<Rightarrow> False | Some mat \<Rightarrow> source1_loaded mat)"

definition skip_line :: "bool \<Rightarrow> string \<Rightarrow> string \<Rightarrow> string" where
  "skip_line unique stem name =
     ''Skipping loading of '' @ material_name unique stem name @ '' as it already loaded''"

text \<open>
  Lines 464--491, one material. The eyeball found for a material (lines 468--471)
  chooses between two branches that do the same, and is left out.
\<close>

definition import_material ::
  "material_env \<Rightarrow> bool \<Rightarrow> bool \<Rightarrow> string \<Rightarrow> string list \<Rightarrow> string \<Rightarrow> material_host \<Rightarrow> material_host" where
  "import_material menv unique use_bvlg stem materials_paths name h =
     (if is_loaded h (material_name unique stem name) then
        h\<lparr>info_log := info_log h @ [skip_line unique stem name]\<rparr>
      else
        (case first_material_path menv materials_paths name of
           None \<Rightarrow> h
         | Some material_path \<Rightarrow>
             create_material menv material_path (material_name unique stem name)
               (h\<lparr>bvlg := use_bvlg\<rparr>)))"

fun import_materials ::
  "material_env \<Rightarrow> bool \<Rightarrow> bool \<Rightarrow> string \<Rightarrow> string list \<Rightarrow> string list \<Rightarrow> material_host \<Rightarrow> material_host" where
  "import_materials menv unique use_bvlg stem materials_paths [] h = h"
| "import_materials menv unique use_bvlg stem materials_paths (name # names) h =
     import_materials menv unique use_bvlg stem materials_paths names
       (import_material menv unique use_bvlg stem materials_paths name h)"


section \<open>Concrete inputs\<close>

text \<open>
  A small model on which the statements below are evaluated: a crate with two bones,
  one material, three vertices and one extra UV layer, and a face flex with a partner.
\<close>

definition example_env :: driver_env where
  "example_env =
     \<lparr>all_exprs = [], module_globals = [], script_prelude = ''import bpy'',
      set_from_controller = (\<lambda>c p. p\<lparr>pg_value_min := fc_min c, pg_value_max := fc_max c\<rparr>),
      blank_controller = \<lparr>pg_name = [], pg_stereo = False, pg_mode = 0, pg_value_min = 0, pg_value_max = 1\<rparr>,
      combo_truthy = True, mdl_flex_controllers = [], mdl_flex_ui_controllers = [],
      mdl_header_name = ''props/crate.mdl''\<rparr>"

definition example_opts :: import_options where
  "example_opts =
     \<lparr>opt_scale = 1, opt_create_drivers = True, opt_re_use_meshes = False,
      opt_unique_material_names = True\<rparr>"

definition example_mdl :: mdl_in where
  "example_mdl =
     \<lparr>hdr_name = ''props/crate.mdl'', hdr_flags = 0,
      mdl_bones = [\<lparr>bone_name = ''root'', parent_bone_index = - 1\<rparr>,
                   \<lparr>bone_name = ''lid'', parent_bone_index = 0\<rparr>],
      mdl_materials = [''wood''],
      mdl_flex_names = [''default'', ''smile'', ''smile_partner''],
      mdl_attachments = []\<rparr>"

definition example_vertices :: "vertex list" where
  "example_vertices =
     [\<lparr>v_vertex = (1, 0, 0), v_normal = (0, 0, 1), v_uv = (0, 1 / 4),
       v_bone_id = [0, 1, 0], v_weight = [1, 0, 0]\<rparr>,
      \<lparr>v_vertex = (- 1, 0, 0), v_normal = (0, 0, 1), v_uv = (1 / 2, 1),
       v_bone_id = [0, 1, 0], v_weight = [1 / 2, 1 / 2, 0]\<rparr>,
      \<lparr>v_vertex = (7 / 1000, 2, 0), v_normal = (0, 0, 1), v_uv = (1, 0),
       v_bone_id = [1, 0, 0], v_weight = [1, 0, 0]\<rparr>]"

definition example_model :: model_in where
  "example_model =
     \<lparr>m_body_part_name = ''body'', m_name = ''crate'', m_vertex_count = 3,
      m_model_vertices = example_vertices,
      m_vtx_vertices = [0, 1, 2],
      m_material_indices = [0],
      m_loop_vertex_index = [2, 0, 1],
      m_extra_data = [(''lightmap'', [(0, 0), (1 / 4, 3 / 4), (1, 1)])],
      m_flexes = [],
      m_vertex_cache = [''smile'' \<mapsto> [(0, 0, 3), (0, 0, 3), (0, 0, 3)]],
      m_original = None\<rparr>"


section \<open>Properties of the vr\_standard shader\<close>

text \<open>What each step of \<open>create_nodes\<close> does to the four parts of the state.\<close>

lemma create_node_simps:
  "fst (create_node t n s) = length (nodes s)"
  "nodes (snd (create_node t n s)) = nodes s @ [\<lparr>bl_idname = t, node_name = n\<rparr>]"
  "links (snd (create_node t n s)) = links s"
  "writes (snd (create_node t n s)) = writes s"
  "material (snd (create_node t n s)) = material s"
  by (simp_all add: create_node_def)

lemma connect_nodes_simps:
  "nodes (connect_nodes a b s) = nodes s"
  "links (connect_nodes a b s) = links s @ [(a, b)]"
  "writes (connect_nodes a b s) = writes s"
  "material (connect_nodes a b s) = material s"
  by (simp_all add: connect_nodes_def)

lemma set_attr_simps:
  "nodes (set_attr h w s) = nodes s"
  "links (set_attr h w s) = links s"
  "writes (set_attr h w s) = writes s @ [(h, w)]"
  "material (set_attr h w s) = material s"
  by (simp_all add: set_attr_def)

lemmas prim_simps = create_node_simps connect_nodes_simps set_attr_simps

lemma tint_nodes_nodes:
  "nodes (tint_nodes p a sh s) =
     nodes s @ (if tint_guard (color p) then [\<lparr>bl_idname = ShaderNodeMixRGB, node_name = None\<rparr>] else [])"
  by (simp add: tint_nodes_def prim_simps split_beta Let_def)

lemma tint_nodes_links:
  "links (tint_nodes p a sh s) =
     links s @ (if tint_guard (color p)
        then [((a, ''Color''), (length (nodes s), ''Color1'')), ((length (nodes s), ''Color''), (sh, ''Base Color''))]
        else [((a, ''Color''), (sh, ''Base Color''))])"
  by (simp add: tint_nodes_def prim_simps split_beta Let_def)

lemma tint_nodes_writes:
  "writes (tint_nodes p a sh s) =
     writes s @ (if tint_guard (color p)
        then [(length (nodes s), SetBlendType ''MULTIPLY''),
              (length (nodes s), SetDefaultValue ''Color2''
                 (ColorVal (if sum_color (color p) > 3 then divide_color (color p) 255 else color p))),
              (length (nodes s), SetDefaultValue ''Fac'' (FloatVal 1))]
        else [])"
  by (simp add: tint_nodes_def prim_simps split_beta Let_def)

lemma tint_nodes_material: "material (tint_nodes p a sh s) = material s"
  by (simp add: tint_nodes_def prim_simps split_beta Let_def)

lemma alpha_nodes_simps:
  "nodes (alpha_nodes p a sh s) = nodes s"
  "writes (alpha_nodes p a sh s) = writes s"
  "links (alpha_nodes p a sh s) = links s @
     (if translucent p \<noteq> 0 \<or> alpha_test p \<noteq> 0 then [((a, ''Alpha''), (sh, ''Alpha''))]
      else if metalness p \<noteq> 0 then [((a, ''Alpha''), (sh, ''Metallic''))] else [])"
  "material (alpha_nodes p a sh s) =
     (if translucent p \<noteq> 0 \<or> alpha_test p \<noteq> 0
      then (material s)\<lparr>blend_method := ''HASHED'', shadow_method := ''HASHED''\<rparr> else material s)"
  by (simp_all add: alpha_nodes_def prim_simps)


lemmas step_simps = prim_simps tint_nodes_nodes tint_nodes_links tint_nodes_writes tint_nodes_material alpha_nodes_simps

lemma create_nodes_nodes:
  assumes "base_status \<noteq> ''UNKNOWN''" "base_status \<noteq> ''LOADED''"
  shows "nodes (create_nodes base_status p s) = nodes s @
     [\<lparr>bl_idname = ShaderNodeOutputMaterial, node_name = None\<rparr>,
      \<lparr>bl_idname = ShaderNodeBsdfPrincipled, node_name = Some SHADER\<rparr>,
      \<lparr>bl_idname = ShaderNodeTexImage, node_name = Some ''albedo''\<rparr>] @
     (if tint_guard (color p) then [\<lparr>bl_idname = ShaderNodeMixRGB, node_name = None\<rparr>] else []) @
     [\<lparr>bl_idname = ShaderNodeTexImage, node_name = Some ''normal''\<rparr>,
      \<lparr>bl_idname = ShaderNodeNormalMap, node_name = None\<rparr>]"
  using assms by (simp add: create_nodes_def step_simps split_beta Let_def)

lemma create_nodes_links:
  assumes "base_status \<noteq> ''UNKNOWN''" "base_status \<noteq> ''LOADED''"
  shows "links (create_nodes base_status p s) = links s @
     [((length (nodes s) + 1, ''BSDF''), (length (nodes s), ''Surface''))] @
     (if tint_guard (color p)
      then [((length (nodes s) + 2, ''Color''), (length (nodes s) + 3, ''Color1'')),
            ((length (nodes s) + 3, ''Color''), (length (nodes s) + 1, ''Base Color''))]
      else [((length (nodes s) + 2, ''Color''), (length (nodes s) + 1, ''Base Color''))]) @
     (if translucent p \<noteq> 0 \<or> alpha_test p \<noteq> 0
      then [((length (nodes s) + 2, ''Alpha''), (length (nodes s) + 1, ''Alpha''))]
      else if metalness p \<noteq> 0
      then [((length (nodes s) + 2, ''Alpha''), (length (nodes s) + 1, ''Metallic''))] else []) @
     (if tint_guard (color p)
      then [((length (nodes s) + 4, ''Color''), (length (nodes s) + 5, ''Color'')),
            ((length (nodes s) + 5, ''Normal''), (length (nodes s) + 1, ''Normal''))]
      else [((length (nodes s) + 3, ''Color''), (length (nodes s) + 4, ''Color'')),
            ((length (nodes s) + 4, ''Normal''), (length (nodes s) + 1, ''Normal''))])"
  using assms by (simp add: create_nodes_def step_simps split_beta Let_def)

lemma create_nodes_writes:
  assumes "base_status \<noteq> ''UNKNOWN''" "base_status \<noteq> ''LOADED''"
  shows "writes (create_nodes base_status p s) = writes s @
     [(length (nodes s) + 1, SetDefaultValue ''Roughness'' (FloatVal (roughness p))),
      (length (nodes s) + 1, SetDefaultValue ''Specular'' (FloatVal (specular p))),
      (length (nodes s) + 2, SetImage (color_texture p))] @
     (if tint_guard (color p)
      then [(length (nodes s) + 3, SetBlendType ''MULTIPLY''),
            (length (nodes s) + 3, SetDefaultValue ''Color2''
               (ColorVal (if sum_color (color p) > 3 then divide_color (color p) 255 else color p))),
            (length (nodes s) + 3, SetDefaultValue ''Fac'' (FloatVal 1)),
            (length (nodes s) + 4, SetImage (fst (normal_texture p)))]
      else [(length (nodes s) + 3, SetImage (fst (normal_texture p)))])"
  using assms by (simp add: create_nodes_def step_simps split_beta Let_def)




text \<open>
  C1 (as amended). When the base class lets construction proceed: for a tint whose
  red, green and blue channels all equal 1, whatever its alpha, no multiply-blend node is
  among the nodes created and the only link into the shader's base colour comes from the
  albedo texture's colour output; for a tint whose red, green and blue channels all
  differ from 1, exactly one multiply-blend node is created, its blend type is set to
  MULTIPLY, the albedo colour feeds its first colour input, its output is the only link
  into the base colour, and the one value assigned to its second colour input is the
  tint, divided by 255 when the sum of the four channels exceeds 3.
\<close>

theorem create_nodes_tint:
  assumes "base_status \<noteq> ''UNKNOWN''" and "base_status \<noteq> ''LOADED''"
    and "color p = (r, g, b, a)"
    and "s' = create_nodes base_status p s" and "n = length (nodes s)"
  shows "(r = 1 \<and> g = 1 \<and> b = 1 \<longrightarrow>
            ShaderNodeMixRGB \<notin> set (map bl_idname (new_nodes s s')) \<and>
            links_into (n + 1, ''Base Color'') (new_links s s') = [(n + 2, ''Color'')] \<and>
            nodes s' ! (n + 2) = \<lparr>bl_idname = ShaderNodeTexImage, node_name = Some ''albedo''\<rparr> \<and>
            bl_idname (nodes s' ! (n + 1)) = ShaderNodeBsdfPrincipled) \<and>
         (r \<noteq> 1 \<and> g \<noteq> 1 \<and> b \<noteq> 1 \<longrightarrow>
            map bl_idname (filter (\<lambda>x. bl_idname x = ShaderNodeMixRGB) (new_nodes s s')) = [ShaderNodeMixRGB] \<and>
            bl_idname (nodes s' ! (n + 3)) = ShaderNodeMixRGB \<and>
            (n + 3, SetBlendType ''MULTIPLY'') \<in> set (new_writes s s') \<and>
            links_into (n + 3, ''Color1'') (new_links s s') = [(n + 2, ''Color'')] \<and>
            links_into (n + 1, ''Base Color'') (new_links s s') = [(n + 3, ''Color'')] \<and>
            default_writes (n + 3) ''Color2'' (new_writes s s') =
              [ColorVal (if r + g + b + a > 3 then (r / 255, g / 255, b / 255, a / 255)
                         else (r, g, b, a))])"
proof -
  have g: "tint_guard (color p) = (r \<noteq> 1 \<and> g \<noteq> 1 \<and> b \<noteq> 1)"
    using assms(3) by (simp add: tint_guard_def)
  have sc: "sum_color (color p) = r + g + b + a" "divide_color (color p) 255 = (r / 255, g / 255, b / 255, a / 255)"
    using assms(3) by (simp_all add: sum_color_def divide_color_def)
  note N = create_nodes_nodes[OF assms(1,2), of p s]
  note L = create_nodes_links[OF assms(1,2), of p s]
  note W = create_nodes_writes[OF assms(1,2), of p s]
  have white: "r = 1 \<and> g = 1 \<and> b = 1 \<Longrightarrow>
            ShaderNodeMixRGB \<notin> set (map bl_idname (new_nodes s s')) \<and>
            links_into (n + 1, ''Base Color'') (new_links s s') = [(n + 2, ''Color'')] \<and>
            nodes s' ! (n + 2) = \<lparr>bl_idname = ShaderNodeTexImage, node_name = Some ''albedo''\<rparr> \<and>
            bl_idname (nodes s' ! (n + 1)) = ShaderNodeBsdfPrincipled"
    using g by (simp add: assms(4,5) N L new_nodes_def new_links_def links_into_def nth_append)
  have other: "r \<noteq> 1 \<and> g \<noteq> 1 \<and> b \<noteq> 1 \<Longrightarrow>
            map bl_idname (filter (\<lambda>x. bl_idname x = ShaderNodeMixRGB) (new_nodes s s')) = [ShaderNodeMixRGB] \<and>
            bl_idname (nodes s' ! (n + 3)) = ShaderNodeMixRGB \<and>
            (n + 3, SetBlendType ''MULTIPLY'') \<in> set (new_writes s s') \<and>
            links_into (n + 3, ''Color1'') (new_links s s') = [(n + 2, ''Color'')] \<and>
            links_into (n + 1, ''Base Color'') (new_links s s') = [(n + 3, ''Color'')] \<and>
            default_writes (n + 3) ''Color2'' (new_writes s s') =
              [ColorVal (if r + g + b + a > 3 then (r / 255, g / 255, b / 255, a / 255)
                         else (r, g, b, a))]"
    using g sc assms(3) by (simp add: assms(4,5) N L W new_nodes_def new_links_def new_writes_def links_into_def default_writes_def nth_append)
  from white other show ?thesis by blast
qed


text \<open>
  The amended statement at two tints: white with alpha one half, and a grey tint in the
  0--255 range.
\<close>

theorem create_nodes_tint_witness:
  "links_into (1, ''Base Color'')
     (links (create_nodes ''NEW''
        \<lparr>color_texture = None, normal_texture = (None, None), color = (1, 1, 1, 1 / 2),
         alpha_test = 0, metalness = 0, translucent = 0, specular = 0, roughness = 1\<rparr>
        \<lparr>nodes = [], links = [], writes = [], material = \<lparr>blend_method = ''OPAQUE'', shadow_method = ''OPAQUE''\<rparr>\<rparr>))
     = [(2, ''Color'')] \<and>
   default_writes 3 ''Color2''
     (writes (create_nodes ''NEW''
        \<lparr>color_texture = None, normal_texture = (None, None), color = (51, 102, 204, 255),
         alpha_test = 0, metalness = 0, translucent = 0, specular = 0, roughness = 1\<rparr>
        \<lparr>nodes = [], links = [], writes = [], material = \<lparr>blend_method = ''OPAQUE'', shadow_method = ''OPAQUE''\<rparr>\<rparr>))
     = [ColorVal (1 / 5, 2 / 5, 4 / 5, 1)]"
  using
    create_nodes_tint [of "''NEW''"
      "\<lparr>color_texture = None, normal_texture = (None, None), color = (1, 1, 1, 1 / 2),
        alpha_test = 0, metalness = 0, translucent = 0, specular = 0, roughness = 1\<rparr>"
      1 1 1 "1 / 2" _
      "\<lparr>nodes = [], links = [], writes = [], material = \<lparr>blend_method = ''OPAQUE'', shadow_method = ''OPAQUE''\<rparr>\<rparr>"
      0, OF _ _ _ refl]
    create_nodes_tint [of "''NEW''"
      "\<lparr>color_texture = None, normal_texture = (None, None), color = (51, 102, 204, 255),
        alpha_test = 0, metalness = 0, translucent = 0, specular = 0, roughness = 1\<rparr>"
      51 102 204 255 _
      "\<lparr>nodes = [], links = [], writes = [], material = \<lparr>blend_method = ''OPAQUE'', shadow_method = ''OPAQUE''\<rparr>\<rparr>"
      0, OF _ _ _ refl]
  by (simp add: new_links_def new_writes_def)

text \<open>
  C1 as the specification states it fails: the tint (1, 1, 1, 1/2) is not pure white,
  and no multiply-blend node is created for it.
\<close>

theorem create_nodes_tint_counterexample:
  "(1, 1, 1, 1 / 2) \<noteq> ((1, 1, 1, 1) :: vec4) \<and>
   ShaderNodeMixRGB \<notin> set (map bl_idname (nodes (create_nodes ''NEW''
        \<lparr>color_texture = None, normal_texture = (None, None), color = (1, 1, 1, 1 / 2),
         alpha_test = 0, metalness = 0, translucent = 0, specular = 0, roughness = 1\<rparr>
        \<lparr>nodes = [], links = [], writes = [], material = \<lparr>blend_method = ''OPAQUE'', shadow_method = ''OPAQUE''\<rparr>\<rparr>)))"
  by (simp add: create_nodes_nodes tint_guard_def)

text \<open>
  The guard joins its three comparisons by \<open>and\<close>, so a tint with one channel at 1 is
  treated like white: pure red gets no multiply-blend node either.
\<close>

lemma create_nodes_red_tint:
  "ShaderNodeMixRGB \<notin> set (map bl_idname (nodes (create_nodes ''NEW''
        \<lparr>color_texture = None, normal_texture = (None, None), color = (1, 0, 0, 1),
         alpha_test = 0, metalness = 0, translucent = 0, specular = 0, roughness = 1\<rparr>
        \<lparr>nodes = [], links = [], writes = [], material = \<lparr>blend_method = ''OPAQUE'', shadow_method = ''OPAQUE''\<rparr>\<rparr>)))"
  by (simp add: create_nodes_nodes tint_guard_def)




section \<open>Properties of the importer's names\<close>









section \<open>Properties of the driver script generation\<close>

lemma input_definition_supported:
  "supported_tag tag \<Longrightarrow> \<exists>d. input_definition (nm, tag) = Inr d"
  by (auto simp add: input_definition_def supported_tag_def)

lemma input_definition_unsupported:
  "\<not> supported_tag tag \<Longrightarrow>
     input_definition (nm, tag) = Inl (NotImplementedError (dquote @ tag @ dquote @ '' is not supported''))"
  by (simp add: input_definition_def supported_tag_def)

lemma input_definitions_Inr:
  "(\<exists>ds. input_definitions inputs = Inr ds) = (filter (\<lambda>inp. \<not> supported_tag (snd inp)) inputs = [])"
proof (induction inputs)
  case Nil
  show ?case by simp
next
  case (Cons inp inputs)
  obtain nm tag where inp: "inp = (nm, tag)" by (cases inp)
  show ?case
  proof (cases "supported_tag tag")
    case True
    from input_definition_supported[OF True, of nm] obtain d where "input_definition (nm, tag) = Inr d" ..
    with Cons True inp show ?thesis by (auto split: sum.splits)
  next
    case False
    with input_definition_unsupported[OF False, of nm] inp show ?thesis by simp
  qed
qed

lemma input_definitions_Inl:
  "input_definitions inputs = Inl e \<Longrightarrow>
     \<exists>inp \<in> set inputs. \<not> supported_tag (snd inp) \<and>
        e = NotImplementedError (dquote @ snd inp @ dquote @ '' is not supported'')"
proof (induction inputs)
  case Nil
  then show ?case by simp
next
  case (Cons inp inputs)
  obtain nm tag where inp: "inp = (nm, tag)" by (cases inp)
  show ?case
  proof (cases "supported_tag tag")
    case True
    from input_definition_supported[OF True, of nm] obtain d where "input_definition (nm, tag) = Inr d" ..
    with Cons inp show ?thesis by (auto split: sum.splits)
  next
    case False
    with input_definition_unsupported[OF False, of nm] inp Cons.prems show ?thesis by auto
  qed
qed

lemma unsupported_Nil: "unsupported_inputs (visited_rules globs []) = []"
  by (simp add: unsupported_inputs_def visited_rules_def)

lemma unsupported_Cons:
  "unsupported_inputs (visited_rules globs ((fn, ex, inputs) # rules)) =
     (if driver_name_of fn \<in> set globs then []
      else filter (\<lambda>inp. \<not> supported_tag (snd inp)) inputs) @
     unsupported_inputs (visited_rules globs rules)"
  by (simp add: unsupported_inputs_def visited_rules_def)

lemma rule_definitions_Inr:
  "(\<exists>out. rule_definitions globs rules script = Inr out) = (unsupported_inputs (visited_rules globs rules) = [])"
proof (induction rules arbitrary: script)
  case Nil
  show ?case by (simp add: unsupported_Nil)
next
  case (Cons r rules)
  obtain flex_name expr inputs where r: "r = (flex_name, expr, inputs)" by (cases r)
  show ?case
  proof (cases "driver_name_of flex_name \<in> set globs")
    case True
    with Cons r show ?thesis by (simp add: unsupported_Cons)
  next
    case False
    show ?thesis
    proof (cases "input_definitions inputs")
      case (Inl e)
      then have "filter (\<lambda>inp. \<not> supported_tag (snd inp)) inputs \<noteq> []"
        using input_definitions_Inr[of inputs] by auto
      with Inl False r show ?thesis by (simp add: unsupported_Cons)
    next
      case (Inr ds)
      then have "filter (\<lambda>inp. \<not> supported_tag (snd inp)) inputs = []"
        using input_definitions_Inr[of inputs] by auto
      with Inr False r Cons[of "script @ template_function (driver_name_of flex_name) ds expr"]
      show ?thesis by (simp add: unsupported_Cons)
    qed
  qed
qed

lemma rule_definitions_Inl:
  "rule_definitions globs rules script = Inl e \<Longrightarrow>
     \<exists>inp \<in> set (unsupported_inputs (visited_rules globs rules)).
        e = NotImplementedError (dquote @ snd inp @ dquote @ '' is not supported'')"
proof (induction rules arbitrary: script)
  case Nil
  then show ?case by simp
next
  case (Cons r rules)
  obtain flex_name expr inputs where r: "r = (flex_name, expr, inputs)" by (cases r)
  show ?case
  proof (cases "driver_name_of flex_name \<in> set globs")
    case True
    with Cons r show ?thesis by (simp add: unsupported_Cons)
  next
    case False
    show ?thesis
    proof (cases "input_definitions inputs")
      case (Inl e')
      with Cons.prems False r have "e' = e" by simp
      with input_definitions_Inl[OF Inl] False r show ?thesis
        by (auto simp add: unsupported_Cons)
    next
      case (Inr ds)
      with Cons.prems False r
      have "rule_definitions globs rules (script @ template_function (driver_name_of flex_name) ds expr) = Inl e"
        by simp
      from Cons.IH[OF this] False r show ?thesis
        by (auto simp add: unsupported_Cons)
    qed
  qed
qed

text \<open>
  C5. An input whose fetch-kind tag is none of the supported ones makes
  \<open>input_definition\<close> raise NotImplementedError, naming the tag, and yields no definition;
  an input with a supported tag yields a definition and no error. Over the whole loop of
  lines 353--384: the loop ends without an error exactly when no rule it visits has an
  input with an unsupported tag; an error it raises is the NotImplementedError of such an
  input; and then \<open>create_flex_drivers\<close> as a whole ends in an error and writes no script.
  The rules visited are those whose driver name is not bound in \<open>globals()\<close>.
\<close>

theorem unsupported_fetch_kind_raises:
  "(\<not> supported_tag tag \<longrightarrow>
      input_definition (nm, tag) =
        Inl (NotImplementedError (dquote @ tag @ dquote @ '' is not supported''))) \<and>
   (supported_tag tag \<longrightarrow> (\<exists>d. input_definition (nm, tag) = Inr d)) \<and>
   ((\<exists>out. rule_definitions globs rules script = Inr out) =
      (unsupported_inputs (visited_rules globs rules) = [])) \<and>
   (rule_definitions globs rules script = Inl e \<longrightarrow>
      (\<exists>inp \<in> set (unsupported_inputs (visited_rules globs rules)).
         e = NotImplementedError (dquote @ snd inp @ dquote @ '' is not supported''))) \<and>
   (unsupported_inputs (visited_rules (module_globals env) (all_exprs env)) \<noteq> [] \<longrightarrow>
      (\<exists>e'. create_flex_drivers env (Some names) ctrls = Inl e'))"
proof (intro conjI impI)
  assume "\<not> supported_tag tag"
  then show "input_definition (nm, tag) =
        Inl (NotImplementedError (dquote @ tag @ dquote @ '' is not supported''))"
    by (rule input_definition_unsupported)
next
  assume "supported_tag tag"
  then show "\<exists>d. input_definition (nm, tag) = Inr d" by (rule input_definition_supported)
next
  show "(\<exists>out. rule_definitions globs rules script = Inr out) =
      (unsupported_inputs (visited_rules globs rules) = [])"
    by (rule rule_definitions_Inr)
next
  assume "rule_definitions globs rules script = Inl e"
  then show "\<exists>inp \<in> set (unsupported_inputs (visited_rules globs rules)).
         e = NotImplementedError (dquote @ snd inp @ dquote @ '' is not supported'')"
    by (rule rule_definitions_Inl)
next
  assume u: "unsupported_inputs (visited_rules (module_globals env) (all_exprs env)) \<noteq> []"
  then have "\<not> (\<exists>out. rule_definitions (module_globals env) (all_exprs env) (script_prelude env) = Inr out)"
    by (simp add: rule_definitions_Inr)
  then obtain e1 where "rule_definitions (module_globals env) (all_exprs env) (script_prelude env) = Inl e1"
    by (cases "rule_definitions (module_globals env) (all_exprs env) (script_prelude env)") auto
  then show "\<exists>e'. create_flex_drivers env (Some names) ctrls = Inl e'"
    by (simp add: create_flex_drivers_def split: sum.splits)
qed


text \<open>
  The statement at an unsupported tag, at a stereo input with a supported tag, at a rule
  with an unsupported input, and at the same rule when the loop passes over it.
\<close>

theorem unsupported_fetch_kind_raises_witness:
  "input_definition (''smile'', ''fetch3'') =
     Inl (NotImplementedError (dquote @ ''fetch3'' @ dquote @ '' is not supported'')) \<and>
   input_definition (''left_lip up'', ''2WAY1'') =
     Inr (''left_lip_up = obj_data.flex_controllers['' @ dquote @ ''lip up'' @ dquote @ ''].value_left'') \<and>
   rule_definitions [] [(''smile'', ''combo(jaw, lip)'', [(''jaw'', ''fetch1''), (''lip'', ''fetch9'')])] ''import bpy'' =
     Inl (NotImplementedError (dquote @ ''fetch9'' @ dquote @ '' is not supported'')) \<and>
   rule_definitions [''smile_driver''] [(''smile'', ''combo(jaw, lip)'', [(''jaw'', ''fetch1''), (''lip'', ''fetch9'')])] ''import bpy'' =
     Inr ''import bpy''"
  using
    unsupported_fetch_kind_raises [of "''fetch3''" "''smile''"]
    unsupported_fetch_kind_raises [of "''2WAY1''" "''left_lip up''"]
    unsupported_fetch_kind_raises [of _ _ "[]"
      "[(''smile'', ''combo(jaw, lip)'', [(''jaw'', ''fetch1''), (''lip'', ''fetch9'')])]" "''import bpy''"
      "NotImplementedError (dquote @ ''fetch9'' @ dquote @ '' is not supported'')"]
  by (simp add: input_definition_def supported_tag_def controller_tags_def driver_name_of_def)


text \<open>
  A shape key without a compiled rule, lines 392--417. When the name cannot be parsed
  into controllers the routine warns twice, registers a controller named after the shape
  key with mode 1 and the range zero to one, and emits the identity driver. When it can
  be parsed (and a \<open>Combo\<close> object is true, as Python objects are by default) the
  template of lines 410--416 raises TypeError: no passthrough rule is ever emitted.
\<close>

lemma parse_simple_flex_inputs:
  "parse_simple_flex ctrls nm = Some (ex, inps) \<Longrightarrow> inps \<noteq> []"
  by (cases "str_split (CHR ''_'') nm"; cases nm)
     (auto simp: parse_simple_flex_def Let_def split: if_splits list.splits)

lemma passthrough_raises:
  assumes "flex_name \<noteq> ''base''" and "flex_name \<notin> set (map fst (all_exprs env))"
    and "parse_simple_flex (controllers s) flex_name = Some (ex, inps)" and "combo_truthy env"
  shows "shape_key_driver env flex_name s = Inl TypeError"
  using assms parse_simple_flex_inputs[OF assms(3)]
  by (simp add: shape_key_driver_def missing_rule_def Let_def)

lemma identity_fallback:
  assumes "flex_name \<noteq> ''base''" and "flex_name \<notin> set (map fst (all_exprs env))"
    and "parse_simple_flex (controllers s) flex_name = None"
  shows "shape_key_driver env flex_name s =
     Inr (s\<lparr>warnings := warnings s @
               [''Rule for '' @ flex_name @ '' not found! Generating basic rule.'',
                ''Failed to generate basic rule for '' @ flex_name @ ''!''],
            controllers := controllers s @
               [(blank_controller env)\<lparr>pg_name := flex_name, pg_mode := 1,
                                       pg_value_min := 0, pg_value_max := 1\<rparr>],
            blender_py_file := blender_py_file s @ identity_function flex_name,
            drivers := drivers s @ [(flex_name, str_replace '' '' ''_'' flex_name @ ''_driver(obj_data)'')]\<rparr>)"
  using assms by (simp add: shape_key_driver_def missing_rule_def Let_def)

text \<open>
  Whether a \<open>Combo\<close> object counts as true or not, the only text that the fallback
  ever appends to the script is the identity driver.
\<close>

lemma missing_rule_script:
  "missing_rule env flex_name s = Inr s' \<Longrightarrow>
     blender_py_file s' = blender_py_file s @ identity_function flex_name"
  by (auto simp: missing_rule_def Let_def split: if_splits)

text \<open>
  C6 at a failing input: a shape key \<open>jaw_drop\<close> without a rule, on mesh data whose
  controllers are \<open>jaw\<close> and \<open>drop\<close>. The specification says a single-controller
  passthrough rule is generated with a warning; the code raises TypeError.
\<close>

theorem passthrough_fallback_raises:
  "shape_key_driver
     \<lparr>all_exprs = [], module_globals = [], script_prelude = ''import bpy'',
      set_from_controller = (\<lambda>c p. p\<lparr>pg_value_min := fc_min c, pg_value_max := fc_max c\<rparr>),
      blank_controller = \<lparr>pg_name = [], pg_stereo = False, pg_mode = 0, pg_value_min = 0, pg_value_max = 1\<rparr>,
      combo_truthy = True, mdl_flex_controllers = [], mdl_flex_ui_controllers = [],
      mdl_header_name = ''face.mdl''\<rparr>
     ''jaw_drop''
     \<lparr>controllers =
        [\<lparr>pg_name = ''jaw'', pg_stereo = False, pg_mode = 0, pg_value_min = 0, pg_value_max = 1\<rparr>,
         \<lparr>pg_name = ''drop'', pg_stereo = False, pg_mode = 0, pg_value_min = 0, pg_value_max = 1\<rparr>],
      warnings = [], blender_py_file = ''import bpy'', drivers = []\<rparr>
   = Inl TypeError"
  by (simp add: shape_key_driver_def missing_rule_def parse_simple_flex_def Let_def)


section \<open>Properties of the UV layers\<close>

lemma gather_Inr:
  "gather a idx = Inr r \<Longrightarrow> r = map ((!) a) idx \<and> (\<forall>j < length idx. idx ! j < length a)"
proof (induction idx arbitrary: r)
  case Nil
  then show ?case by simp
next
  case (Cons i idx)
  from Cons.prems obtain r' where i: "i < length a" and r': "gather a idx = Inr r'" and r: "r = a ! i # r'"
    by (auto split: if_splits sum.splits)
  from Cons.IH[OF r'] have ih: "r' = map ((!) a) idx" "\<forall>j < length idx. idx ! j < length a" by auto
  show ?case
  proof (intro conjI allI impI)
    show "r = map ((!) a) (i # idx)" using r ih(1) by simp
    fix j assume "j < length (i # idx)"
    then show "(i # idx) ! j < length a" using i ih(2) by (cases j) auto
  qed
qed

lemma length_flatten2: "length (flatten2 rows) = 2 * length rows"
  by (induction rows) (auto simp: flatten2_def)

lemma flatten2_nth:
  "l < length rows \<Longrightarrow>
     flatten2 rows ! (2 * l) = fst (rows ! l) \<and> flatten2 rows ! (2 * l + 1) = snd (rows ! l)"
proof (induction rows arbitrary: l)
  case Nil
  then show ?case by simp
next
  case (Cons row rows)
  obtain u v where row: "row = (u, v)" by (cases row)
  have f: "flatten2 ((u, v) # rows) = u # v # flatten2 rows" by (simp add: flatten2_def)
  show ?case
  proof (cases l)
    case 0
    then show ?thesis by (simp add: f row)
  next
    case (Suc l')
    with Cons.prems have "l' < length rows" by simp
    from Cons.IH[OF this] show ?thesis by (simp add: f Suc row)
  qed
qed

lemma flip_v_nth: "i < length uvs \<Longrightarrow> flip_v uvs ! i = (fst (uvs ! i), 1 - snd (uvs ! i))"
  by (simp add: flip_v_def split_beta)

lemma uv_layer_data_Inr:
  assumes "uv_layer_data uvs vertex_indices = Inr flat"
  shows "length flat = 2 * length vertex_indices"
    and "l < length vertex_indices \<Longrightarrow>
           vertex_indices ! l < length uvs \<and>
           flat ! (2 * l) = fst (uvs ! (vertex_indices ! l)) \<and>
           flat ! (2 * l + 1) = 1 - snd (uvs ! (vertex_indices ! l))"
proof -
  from assms obtain rows where g: "gather (flip_v uvs) vertex_indices = Inr rows" and flat: "flat = flatten2 rows"
    by (auto simp: uv_layer_data_def split: sum.splits)
  from gather_Inr[OF g] have rows: "rows = map ((!) (flip_v uvs)) vertex_indices"
    and rng: "\<forall>j < length vertex_indices. vertex_indices ! j < length uvs"
    by (auto simp: flip_v_def)
  show "length flat = 2 * length vertex_indices" by (simp add: flat rows length_flatten2)
  assume l: "l < length vertex_indices"
  then have "l < length rows" by (simp add: rows)
  from flatten2_nth[OF this] l rng
  show "vertex_indices ! l < length uvs \<and>
           flat ! (2 * l) = fst (uvs ! (vertex_indices ! l)) \<and>
           flat ! (2 * l + 1) = 1 - snd (uvs ! (vertex_indices ! l))"
    by (simp add: flat rows flip_v_nth)
qed

lemma extra_uv_layers_Inr:
  assumes "extra_uv_layers ed vtx vi = Inr layers"
  shows "length layers = length ed \<and>
         (\<forall>k < length ed. fst (layers ! k) = Some (fst (ed ! k)) \<and>
            (\<exists>extra_uv. gather (snd (ed ! k)) vtx = Inr extra_uv \<and>
                        uv_layer_data extra_uv vi = Inr (snd (layers ! k))))"
  using assms
proof (induction ed arbitrary: layers)
  case Nil
  then show ?case by simp
next
  case (Cons x ed)
  obtain nm sl where x: "x = (nm, sl)" by (cases x)
  from Cons.prems x obtain extra_uv flat rest where
    g: "gather sl vtx = Inr extra_uv" and u: "uv_layer_data extra_uv vi = Inr flat"
    and r: "extra_uv_layers ed vtx vi = Inr rest" and l: "layers = (Some nm, flat) # rest"
    by (auto split: sum.splits)
  from Cons.IH[OF r] have ih: "length rest = length ed"
    "\<forall>k < length ed. fst (rest ! k) = Some (fst (ed ! k)) \<and>
            (\<exists>extra_uv. gather (snd (ed ! k)) vtx = Inr extra_uv \<and>
                        uv_layer_data extra_uv vi = Inr (snd (rest ! k)))" by auto
  show ?case
  proof (intro conjI allI impI)
    show "length layers = length (x # ed)" by (simp add: l ih(1))
  next
    fix k assume k: "k < length (x # ed)"
    show "fst (layers ! k) = Some (fst ((x # ed) ! k))"
      using k ih(2) by (cases k) (auto simp: l x)
    show "\<exists>extra_uv. gather (snd ((x # ed) ! k)) vtx = Inr extra_uv \<and>
                        uv_layer_data extra_uv vi = Inr (snd (layers ! k))"
      using k ih(2) g u by (cases k) (auto simp: l x)
  qed
qed

lemma build_mesh_uv:
  assumes "build_mesh env opts mdl stem is_static m = Inr obj"
  shows "\<exists>vertices uv_flat extra_layers.
           gather (m_model_vertices m) (m_vtx_vertices m) = Inr vertices \<and>
           uv_layer_data (map v_uv vertices) (m_loop_vertex_index m) = Inr uv_flat \<and>
           extra_uv_layers (m_extra_data m) (m_vtx_vertices m) (m_loop_vertex_index m) = Inr extra_layers \<and>
           uv_layers obj = (None, uv_flat) # extra_layers"
  using assms by (auto simp: build_mesh_def split: sum.splits)

text \<open>
  C10. For a sub-model that is built, the mesh gets the primary UV layer and one layer
  per item of the vertex buffer's extra data, named after it. In every layer the two
  numbers stored for a loop are those of the loop's vertex, taken from the source through
  the sub-model's vertex indices: the U coordinate as it is, and 1 minus the V
  coordinate.
\<close>

theorem uv_v_flipped:
  assumes "build_mesh env opts mdl stem is_static m = Inr obj"
    and "l < length (m_loop_vertex_index m)"
    and "n = m_vtx_vertices m ! (m_loop_vertex_index m ! l)"
  shows "length (uv_layers obj) = 1 + length (m_extra_data m) \<and>
         fst (uv_layers obj ! 0) = None \<and>
         snd (uv_layers obj ! 0) ! (2 * l) = fst (v_uv (m_model_vertices m ! n)) \<and>
         snd (uv_layers obj ! 0) ! (2 * l + 1) = 1 - snd (v_uv (m_model_vertices m ! n)) \<and>
         (\<forall>k < length (m_extra_data m).
            fst (uv_layers obj ! (k + 1)) = Some (fst (m_extra_data m ! k)) \<and>
            snd (uv_layers obj ! (k + 1)) ! (2 * l) = fst (snd (m_extra_data m ! k) ! n) \<and>
            snd (uv_layers obj ! (k + 1)) ! (2 * l + 1) = 1 - snd (snd (m_extra_data m ! k) ! n))"
proof -
  from build_mesh_uv[OF assms(1)] obtain vertices uv_flat extra_layers where
    g: "gather (m_model_vertices m) (m_vtx_vertices m) = Inr vertices"
    and u: "uv_layer_data (map v_uv vertices) (m_loop_vertex_index m) = Inr uv_flat"
    and x: "extra_uv_layers (m_extra_data m) (m_vtx_vertices m) (m_loop_vertex_index m) = Inr extra_layers"
    and ls: "uv_layers obj = (None, uv_flat) # extra_layers"
    by blast
  from gather_Inr[OF g] have vs: "vertices = map ((!) (m_model_vertices m)) (m_vtx_vertices m)" by simp
  from uv_layer_data_Inr(2)[OF u assms(2)]
  have p: "m_loop_vertex_index m ! l < length (m_vtx_vertices m)"
    "uv_flat ! (2 * l) = fst (map v_uv vertices ! (m_loop_vertex_index m ! l))"
    "uv_flat ! (2 * l + 1) = 1 - snd (map v_uv vertices ! (m_loop_vertex_index m ! l))"
    by (auto simp: vs)
  from extra_uv_layers_Inr[OF x] have xl: "length extra_layers = length (m_extra_data m)"
    and xk: "\<forall>k < length (m_extra_data m). fst (extra_layers ! k) = Some (fst (m_extra_data m ! k)) \<and>
            (\<exists>extra_uv. gather (snd (m_extra_data m ! k)) (m_vtx_vertices m) = Inr extra_uv \<and>
                        uv_layer_data extra_uv (m_loop_vertex_index m) = Inr (snd (extra_layers ! k)))"
    by auto
  have prim: "snd (uv_layers obj ! 0) ! (2 * l) = fst (v_uv (m_model_vertices m ! n))"
    "snd (uv_layers obj ! 0) ! (2 * l + 1) = 1 - snd (v_uv (m_model_vertices m ! n))"
    using p by (simp_all add: ls vs assms(3))
  have extra: "fst (uv_layers obj ! (k + 1)) = Some (fst (m_extra_data m ! k)) \<and>
            snd (uv_layers obj ! (k + 1)) ! (2 * l) = fst (snd (m_extra_data m ! k) ! n) \<and>
            snd (uv_layers obj ! (k + 1)) ! (2 * l + 1) = 1 - snd (snd (m_extra_data m ! k) ! n)"
    if k: "k < length (m_extra_data m)" for k
  proof -
    from xk k obtain extra_uv where nm: "fst (extra_layers ! k) = Some (fst (m_extra_data m ! k))"
      and ge: "gather (snd (m_extra_data m ! k)) (m_vtx_vertices m) = Inr extra_uv"
      and ue: "uv_layer_data extra_uv (m_loop_vertex_index m) = Inr (snd (extra_layers ! k))"
      by blast
    from gather_Inr[OF ge] have eu: "extra_uv = map ((!) (snd (m_extra_data m ! k))) (m_vtx_vertices m)" by simp
    from uv_layer_data_Inr(2)[OF ue assms(2)] p(1)
    show ?thesis by (simp add: ls nm eu assms(3))
  qed
  show ?thesis using prim extra by (simp add: ls xl)
qed


section \<open>Properties of the flex blend weights\<close>

lemma clip01_range: "0 \<le> clip01 x \<and> clip01 x \<le> 1"
  by (simp add: clip01_def)







section \<open>Properties of the armature and the vertex groups\<close>















section \<open>Properties of the material import\<close>

lemma import_material_loaded:
  assumes "is_loaded h (material_name unique stem name)"
  shows "import_material menv unique use_bvlg stem paths name h =
           h\<lparr>info_log := info_log h @ [skip_line unique stem name]\<rparr>"
  using assms by (simp add: import_material_def)

lemma is_loaded_log: "is_loaded (h\<lparr>info_log := l\<rparr>) n = is_loaded h n"
  by (simp add: is_loaded_def)

lemma import_materials_loaded:
  assumes "\<forall>name \<in> set names. is_loaded h (material_name unique stem name)"
  shows "import_materials menv unique use_bvlg stem paths names h =
           h\<lparr>info_log := info_log h @ map (skip_line unique stem) names\<rparr>"
  using assms
proof (induction names arbitrary: h)
  case Nil
  then show ?case by simp
next
  case (Cons name names)
  let ?h1 = "h\<lparr>info_log := info_log h @ [skip_line unique stem name]\<rparr>"
  from Cons.prems have 1: "import_material menv unique use_bvlg stem paths name h = ?h1"
    by (simp add: import_material_loaded)
  from Cons.prems have "\<forall>name \<in> set names. is_loaded ?h1 (material_name unique stem name)"
    by (simp add: is_loaded_log)
  from Cons.IH[OF this] 1 show ?case by simp
qed

text \<open>
  C7. A material that exists in the host and is flagged as loaded is passed over: the
  import of that material logs one line at level info and changes nothing else. When
  every material of the model is in that state, the whole import only appends these
  lines to the log; the host's materials and the shader switch are what they were, so
  importing again finds the same state and again only logs.
\<close>

theorem import_materials_skips_loaded:
  "(is_loaded h (material_name unique stem name) \<longrightarrow>
      import_material menv unique use_bvlg stem paths name h =
        h\<lparr>info_log := info_log h @ [skip_line unique stem name]\<rparr>) \<and>
   ((\<forall>name \<in> set names. is_loaded h (material_name unique stem name)) \<longrightarrow>
      import_materials menv unique use_bvlg stem paths names h =
        h\<lparr>info_log := info_log h @ map (skip_line unique stem) names\<rparr> \<and>
      bpy_materials (import_materials menv unique use_bvlg stem paths names h) = bpy_materials h \<and>
      bvlg (import_materials menv unique use_bvlg stem paths names h) = bvlg h \<and>
      import_materials menv unique use_bvlg stem paths names
        (import_materials menv unique use_bvlg stem paths names h) =
        h\<lparr>info_log := info_log h @ map (skip_line unique stem) names @ map (skip_line unique stem) names\<rparr>)"
proof (intro conjI impI)
  assume "is_loaded h (material_name unique stem name)"
  then show "import_material menv unique use_bvlg stem paths name h =
        h\<lparr>info_log := info_log h @ [skip_line unique stem name]\<rparr>"
    by (rule import_material_loaded)
next
  assume a: "\<forall>name \<in> set names. is_loaded h (material_name unique stem name)"
  let ?h1 = "h\<lparr>info_log := info_log h @ map (skip_line unique stem) names\<rparr>"
  show 1: "import_materials menv unique use_bvlg stem paths names h = ?h1"
    by (rule import_materials_loaded[OF a])
  show "bpy_materials (import_materials menv unique use_bvlg stem paths names h) = bpy_materials h"
    by (simp add: 1)
  show "bvlg (import_materials menv unique use_bvlg stem paths names h) = bvlg h"
    by (simp add: 1)
  from a have "\<forall>name \<in> set names. is_loaded ?h1 (material_name unique stem name)"
    by (simp add: is_loaded_log)
  from import_materials_loaded[OF this, of menv use_bvlg paths]
  show "import_materials menv unique use_bvlg stem paths names
        (import_materials menv unique use_bvlg stem paths names h) =
        h\<lparr>info_log := info_log h @ map (skip_line unique stem) names @ map (skip_line unique stem) names\<rparr>"
    by (simp add: 1)
qed


section \<open>The statements at concrete inputs\<close>

lemmas example_defs = example_env_def example_opts_def example_mdl_def example_model_def example_vertices_def

text \<open>
  C10 at the example: the loops of the crate's mesh refer to the vertices 2, 0 and 1; the
  second loop stores V as 3/4 in the primary layer for the source's 1/4, and as 1 in the
  lightmap layer for the source's 0.
\<close>

theorem uv_v_flipped_witness:
  "build_mesh example_env example_opts example_mdl ''crate'' True example_model =
     Inr \<lparr>obj_name = ''body_crate'', mesh_data_name = ''body_crate_MESH'', used_copy = False,
          armature_parent = False, material_slots = [''crate_wood''],
          uv_layers = [(None, [1, 1, 0, 3 / 4, 1 / 2, 0]),
                       (Some ''lightmap'', [1, 0, 0, 1, 1 / 4, 1 / 4])],
          vertex_groups = [], shape_keys = [], flex_drivers = None\<rparr> \<and>
   v_uv (example_vertices ! 0) = (0, 1 / 4) \<and>
   snd (m_extra_data example_model ! 0) ! 0 = (0, 0) \<and>
   m_vtx_vertices example_model ! (m_loop_vertex_index example_model ! 1) = 0"
  (is "?lhs = Inr ?obj \<and> _")
proof -
  have h: "?lhs = Inr ?obj"
    by (simp add: build_mesh_def example_defs model_materials_def material_name_def name_tail_def
        uv_layer_data_def flip_v_def flatten2_def)
  have l: "1 < length (m_loop_vertex_index example_model)" by (simp add: example_defs)
  from uv_v_flipped[OF h l refl] h show ?thesis by (simp add: example_defs)
qed





text \<open>
  C7 at a host in which the model's one material exists and is flagged as loaded.
\<close>

theorem import_materials_skips_loaded_witness:
  "is_loaded \<lparr>bpy_materials = [''wood'' \<mapsto> \<lparr>source1_loaded = True\<rparr>], info_log = [], bvlg = False\<rparr>
     (material_name False ''crate'' ''wood'') \<and>
   import_materials
     \<lparr>find_material = (\<lambda>p n. Some (p @ ''/'' @ n)),
      create_material = (\<lambda>p n h. h\<lparr>bpy_materials := (bpy_materials h)(n \<mapsto> \<lparr>source1_loaded = True\<rparr>)\<rparr>)\<rparr>
     False True ''crate'' [''materials''] [''wood'']
     \<lparr>bpy_materials = [''wood'' \<mapsto> \<lparr>source1_loaded = True\<rparr>], info_log = [], bvlg = False\<rparr> =
     \<lparr>bpy_materials = [''wood'' \<mapsto> \<lparr>source1_loaded = True\<rparr>],
      info_log = [''Skipping loading of wood as it already loaded''], bvlg = False\<rparr>"
  using import_materials_skips_loaded [of
      "\<lparr>bpy_materials = [''wood'' \<mapsto> \<lparr>source1_loaded = True\<rparr>], info_log = [], bvlg = False\<rparr>"
      False "''crate''" "''wood''"
      "\<lparr>find_material = (\<lambda>p n. Some (p @ ''/'' @ n)),
        create_material = (\<lambda>p n h. h\<lparr>bpy_materials := (bpy_materials h)(n \<mapsto> \<lparr>source1_loaded = True\<rparr>)\<rparr>)\<rparr>"
      True "[''materials'']" "[''wood'']"]
  by (simp add: is_loaded_def material_name_def name_tail_def skip_line_def)


end
